theory Spec2Isabelle
  imports Main "HOL-Library.Char_ord" "HOL-Library.List_Lexorder"
begin

section \<open>MapMatcher.ts: the data the matcher works on\<close>

text \<open>
  The embedding follows \<^verbatim>\<open>src/packages/navi/src/MapMatcher.ts\<close>. Objects that
  JavaScript compares by identity are references (natural numbers): a matcher class, a
  resolvable function, a resolver, a child matcher instance. The modules the file imports
  (\<^verbatim>\<open>Mapping\<close>, \<^verbatim>\<open>Resolver\<close>, \<^verbatim>\<open>Segments\<close>, \<^verbatim>\<open>Matcher\<close>) are not
  part of the file: what it calls from them is taken as a parameter.
\<close>

type_synonym matcher = nat
type_synonym resolvable = nat
type_synonym resolver = nat
type_synonym instance_ref = nat

text \<open>
  \<^verbatim>\<open>MaybeResolvableMatcher\<close>: a function object. It is a matcher class when its
  \<^verbatim>\<open>isMatcher\<close> property is truthy, and a function to be resolved otherwise.
\<close>

datatype maybe_resolvable = IsMatcher matcher | Resolvable resolvable

text \<open>
  The request and the environment. The file reads \<^verbatim>\<open>env.request\<close> and
  \<^verbatim>\<open>env.request.path\<close> only; whatever else a request holds is the record's
  extension. A path is falsy exactly when it is the empty string.
\<close>

record request =
  path :: string

record ('q, 'c) env =
  request :: "'q request_scheme"
  context' :: 'c

record ('q, 'c) matcherOptions =
  env :: "('q, 'c) env"
  resolver :: resolver
  appendFinalSlash :: bool

text \<open>
  A \<^verbatim>\<open>Mapping\<close> as far as this file reads it (its \<^verbatim>\<open>regExp\<close> is used by the
  console warnings of \<^verbatim>\<open>map\<close> only).
\<close>

record mapping =
  pattern :: string
  key :: string
  maybeResolvableMatcher :: maybe_resolvable

text \<open>
  The type of the field \<^verbatim>\<open>child\<close>. Field names are global in a theory, so its
  \<^verbatim>\<open>maybeResolvableMatcher\<close> is \<open>maybeResolvable\<close> here.
\<close>

record ('q, 'c) child_selection =
  mapping :: mapping
  matcherOptions :: "('q, 'c) matcherOptions"
  maybeResolvable :: maybe_resolvable

text \<open>
  The type of the field \<^verbatim>\<open>last\<close>: the matcher of the previous pass and the
  reference of the instance built from it; each may be \<^verbatim>\<open>undefined\<close>.
\<close>

record memo =
  matcherInstance :: "instance_ref option"
  matcher :: "matcher option"

text \<open>
  A value found under a pattern of the paths object: \<^verbatim>\<open>typeof\<close> says
  \<^verbatim>\<open>'function'\<close> for the first form and anything else for the second.
\<close>

datatype path_value = Function maybe_resolvable | NotAFunction

text \<open>
  The class \<^verbatim>\<open>map\<close> returns, by its three static fields. The paths object is the
  list of its own keys, in the order of \<^verbatim>\<open>Object.keys\<close>, with their values.
\<close>

record map_class =
  paths :: "(string \<times> path_value) list"
  orderedMappings :: "mapping list"
  patterns :: "string list"

text \<open>
  A \<^verbatim>\<open>MapMatcherImplementation\<close> instance: the three fields \<^verbatim>\<open>MatcherBase\<close>
  copies from the options, the class it was built from, \<^verbatim>\<open>child\<close> and
  \<^verbatim>\<open>last\<close>.
\<close>

record ('q, 'c) node = "('q, 'c) matcherOptions" +
  constructor' :: map_class
  child :: "('q, 'c) child_selection option"
  last' :: "memo option"

text \<open>\<^verbatim>\<open>Resolution\<close> and \<^verbatim>\<open>MatcherResult\<close>.\<close>

record 'e resolution =
  id' :: int
  value' :: "matcher option"
  error :: "'e option"

record 's matcherResult =
  resolutionIds :: "int list"
  segments :: "'s list"

text \<open>
  The store of child matcher instances. \<^verbatim>\<open>new\<close> takes the next free reference;
  \<open>'cs\<close> is the state of a child instance, which its own \<^verbatim>\<open>getResult\<close> may change.
\<close>

record 'cs heap =
  objects :: "instance_ref \<Rightarrow> 'cs"
  allocated :: nat

text \<open>
  What a pass calls outside the file: the resolver, the constructor and
  \<^verbatim>\<open>getResult\<close> of a child matcher class, and the three segment factories. They are
  given anew at each pass, since a resolution settles between passes.
\<close>

record ('q, 'c, 'e, 's, 'cs) externals =
  resolve :: "resolver \<Rightarrow> ('q, 'c) env \<Rightarrow> resolvable \<Rightarrow> 'e resolution"
  newMatcher :: "matcher \<Rightarrow> ('q, 'c) matcherOptions \<Rightarrow> 'cs"
  getResult :: "'cs \<Rightarrow> 's matcherResult \<times> 'cs"
  createSegment :: "string \<Rightarrow> 'q request_scheme \<Rightarrow> map_class \<Rightarrow> bool \<Rightarrow> 's"
  createNotFoundSegment :: "'q request_scheme \<Rightarrow> 's"
  createNotReadySegment :: "'q request_scheme \<Rightarrow> 'e option \<Rightarrow> bool \<Rightarrow> 's"

section \<open>The constructor\<close>

text \<open>
  The loop of lines 76 to 94, with \<open>Suc i\<close> entries left to visit: it tests entry
  \<open>i\<close> and stops at the first success. Beside the selection it returns the entries
  \<^verbatim>\<open>mappingAgainstPathname\<close> was called on, in the order of the calls.
\<close>

fun selectChild ::
  "(('q, 'c) env \<Rightarrow> mapping \<Rightarrow> bool \<Rightarrow> ('q, 'c) env option) \<Rightarrow> ('q, 'c) env \<Rightarrow> bool \<Rightarrow>
   mapping list \<Rightarrow> nat \<Rightarrow> (mapping \<times> ('q, 'c) env) option \<times> mapping list" where
  "selectChild mappingAgainstPathname e slash mappings 0 = (None, [])"
| "selectChild mappingAgainstPathname e slash mappings (Suc i) =
     (let m = mappings ! i in
      case mappingAgainstPathname e m slash of
        Some childEnv \<Rightarrow> (Some (m, childEnv), [m])
      | None \<Rightarrow>
          (case selectChild mappingAgainstPathname e slash mappings i of
             (sel, tested) \<Rightarrow> (sel, m # tested)))"

text \<open>
  The constructor (lines 54 to 96): the node, and the entries the path test was called
  on while it was built.
\<close>

definition MapMatcherImplementation ::
  "(('q, 'c) env \<Rightarrow> mapping \<Rightarrow> bool \<Rightarrow> ('q, 'c) env option) \<Rightarrow> map_class \<Rightarrow>
   ('q, 'c) matcherOptions \<Rightarrow> ('q, 'c) node \<times> mapping list" where
  "MapMatcherImplementation mappingAgainstPathname cls options =
     (let this = \<lparr>env = env options, resolver = resolver options,
                  appendFinalSlash = appendFinalSlash options,
                  constructor' = cls, child = None, last' = None\<rparr>;
          mappings = orderedMappings cls
      in if length mappings = 1 \<and> pattern (mappings ! 0) = ''/''
         then (this\<lparr>child := Some
                 \<lparr>mapping = mappings ! 0,
                  matcherOptions = \<lparr>env = env this, resolver = resolver this,
                                    appendFinalSlash = appendFinalSlash this\<rparr>,
                  maybeResolvable = maybeResolvableMatcher (mappings ! 0)\<rparr>\<rparr>, [])
         else (case selectChild mappingAgainstPathname (env this) (appendFinalSlash this)
                      mappings (length mappings) of
                 (None, tested) \<Rightarrow> (this, tested)
               | (Some (m, childEnv), tested) \<Rightarrow>
                   (this\<lparr>child := Some
                      \<lparr>mapping = m,
                       matcherOptions = \<lparr>env = childEnv, resolver = resolver this,
                                         appendFinalSlash = appendFinalSlash this\<rparr>,
                       maybeResolvable = maybeResolvableMatcher m\<rparr>\<rparr>, tested)))"

section \<open>One evaluation pass\<close>

text \<open>Lines 103 to 113: the resolution ids, the resolution if one was asked for, the matcher.\<close>

definition resolveChild ::
  "('q, 'c, 'e, 's, 'cs) externals \<Rightarrow> ('q, 'c) node \<Rightarrow> ('q, 'c) child_selection \<Rightarrow>
   int list \<times> 'e resolution option \<times> matcher option" where
  "resolveChild ext this c =
     (case maybeResolvable c of
        IsMatcher m \<Rightarrow> ([], None, Some m)
      | Resolvable r \<Rightarrow>
          (let childMatcherResolution = resolve ext (resolver this) (env (matcherOptions c)) r
           in ([id' childMatcherResolution], Some childMatcherResolution,
               value' childMatcherResolution)))"

text \<open>\<^verbatim>\<open>new childMatcher(this.child.matcherOptions)\<close>: a new object at the next free reference.\<close>

definition construct ::
  "('q, 'c, 'e, 's, 'cs) externals \<Rightarrow> matcher \<Rightarrow> ('q, 'c) matcherOptions \<Rightarrow> 'cs heap \<Rightarrow>
   instance_ref \<times> 'cs heap" where
  "construct ext m options h =
     (allocated h,
      h\<lparr>objects := (objects h)(allocated h := newMatcher ext m options),
        allocated := Suc (allocated h)\<rparr>)"

text \<open>Lines 115 to 121: build a child instance, or take the one of the previous pass.\<close>

definition childInstance ::
  "('q, 'c, 'e, 's, 'cs) externals \<Rightarrow> ('q, 'c) node \<Rightarrow> ('q, 'c) child_selection \<Rightarrow>
   matcher option \<Rightarrow> 'cs heap \<Rightarrow> instance_ref option \<times> 'cs heap" where
  "childInstance ext this c childMatcher h =
     (if (case last' this of None \<Rightarrow> True | Some l \<Rightarrow> matcher l \<noteq> childMatcher)
      then (case childMatcher of
              Some m \<Rightarrow> (case construct ext m (matcherOptions c) h of (a, h') \<Rightarrow> (Some a, h'))
            | None \<Rightarrow> (None, h))
      else (matcherInstance (the (last' this)), h))"

text \<open>
  Lines 99 to 127: the resolution ids, the resolution, the child instance, the node with
  \<^verbatim>\<open>last\<close> assigned, and the store.
\<close>

definition selectInstance ::
  "('q, 'c, 'e, 's, 'cs) externals \<Rightarrow> ('q, 'c) node \<Rightarrow> 'cs heap \<Rightarrow>
   int list \<times> 'e resolution option \<times> instance_ref option \<times> ('q, 'c) node \<times> 'cs heap" where
  "selectInstance ext this h =
     (case child this of
        None \<Rightarrow> ([], None, None, this, h)
      | Some c \<Rightarrow>
          (case resolveChild ext this c of
             (ids, childMatcherResolution, childMatcher) \<Rightarrow>
               (case childInstance ext this c childMatcher h of
                  (childMatcherInstance, h') \<Rightarrow>
                    (ids, childMatcherResolution, childMatcherInstance,
                     this\<lparr>last' := Some \<lparr>matcherInstance = childMatcherInstance,
                                         matcher = childMatcher\<rparr>\<rparr>, h'))))"

text \<open>
  Lines 129 to 132: \<^verbatim>\<open>getResult\<close> of the child instance, which may change that
  instance. Its result is an object, so the test of line 135 succeeds whenever there is
  an instance.
\<close>

definition childResult ::
  "('q, 'c, 'e, 's, 'cs) externals \<Rightarrow> instance_ref option \<Rightarrow> 'cs heap \<Rightarrow>
   's matcherResult option \<times> 'cs heap" where
  "childResult ext childMatcherInstance h =
     (case childMatcherInstance of
        None \<Rightarrow> (None, h)
      | Some a \<Rightarrow>
          (case getResult ext (objects h a) of
             (r, s) \<Rightarrow> (Some r, h\<lparr>objects := (objects h)(a := s)\<rparr>)))"

text \<open>
  Lines 134 to 151. \<^verbatim>\<open>this.child!\<close> is the source's own unchecked read: a resolution
  exists only when a child was selected.
\<close>

definition nextSegments ::
  "('q, 'c, 'e, 's, 'cs) externals \<Rightarrow> ('q, 'c) node \<Rightarrow> 's matcherResult option \<Rightarrow>
   'e resolution option \<Rightarrow> 's list" where
  "nextSegments ext this childMatcherResult childMatcherResolution =
     (case childMatcherResult of
        Some r \<Rightarrow> segments r
      | None \<Rightarrow>
          (case childMatcherResolution of
             Some res \<Rightarrow>
               [createNotReadySegment ext (request (env (matcherOptions (the (child this)))))
                  (error res) (appendFinalSlash this)]
           | None \<Rightarrow>
               if path (request (env this)) \<noteq> []
               then [createNotFoundSegment ext (request (env this))]
               else []))"

text \<open>\<^verbatim>\<open>execute\<close> (lines 98 to 166): the result, the node and the store after the pass.\<close>

definition execute ::
  "('q, 'c, 'e, 's, 'cs) externals \<Rightarrow> ('q, 'c) node \<Rightarrow> 'cs heap \<Rightarrow>
   's matcherResult \<times> ('q, 'c) node \<times> 'cs heap" where
  "execute ext this h =
     (case selectInstance ext this h of
        (ids, childMatcherResolution, childMatcherInstance, this', h') \<Rightarrow>
          (case childResult ext childMatcherInstance h' of
             (childMatcherResult, h'') \<Rightarrow>
               (let mapSegment = createSegment ext ''map'' (request (env this))
                                   (constructor' this) (appendFinalSlash this)
                in (\<lparr>resolutionIds =
                       ids @ (case childMatcherResult of
                                Some r \<Rightarrow> resolutionIds r | None \<Rightarrow> []),
                     segments =
                       [mapSegment] @
                       nextSegments ext this childMatcherResult childMatcherResolution\<rparr>,
                    this', h''))))"

text \<open>Successive passes on one node, each with the externals of its moment.\<close>

fun passes ::
  "('q, 'c, 'e, 's, 'cs) externals list \<Rightarrow> ('q, 'c) node \<times> 'cs heap \<Rightarrow>
   ('q, 'c) node \<times> 'cs heap" where
  "passes [] s = s"
| "passes (ext # exts) s =
     (case execute ext (fst s) (snd s) of (r, this', h') \<Rightarrow> passes exts (this', h'))"

section \<open>The builder \<^verbatim>\<open>map\<close>\<close>

text \<open>
  What \<^verbatim>\<open>map\<close> can be called with: nothing (or any other falsy value), a function,
  or a paths object, given by its own keys in the order of \<^verbatim>\<open>Object.keys\<close>.
\<close>

datatype map_input =
  NoInput
| BareFunction maybe_resolvable
| PathsObject "(string \<times> path_value) list"

datatype js_error = Error string | TypeError string

text \<open>\<^verbatim>\<open>typeof paths[pattern] === 'function'\<close>.\<close>

definition typeofFunction :: "(string \<times> path_value) list \<Rightarrow> string \<Rightarrow> bool" where
  "typeofFunction ps p = (case map_of ps p of Some (Function f) \<Rightarrow> True | _ \<Rightarrow> False)"

text \<open>\<^verbatim>\<open>Array.prototype.join\<close>.\<close>

fun join :: "string \<Rightarrow> string list \<Rightarrow> string" where
  "join sep [] = []"
| "join sep [x] = x"
| "join sep (x # y # ys) = x @ sep @ join sep (y # ys)"

text \<open>\<^verbatim>\<open>compareStrings\<close> (lines 264 to 266), on the codes of the characters.\<close>

definition compareStrings :: "string \<Rightarrow> string \<Rightarrow> int" where
  "compareStrings a b = (if a < b then - 1 else if a > b then 1 else 0)"

text \<open>\<^verbatim>\<open>Array.prototype.sort\<close> with a comparison function: a stable sort.\<close>

fun insertSorted :: "('a \<Rightarrow> 'a \<Rightarrow> int) \<Rightarrow> 'a \<Rightarrow> 'a list \<Rightarrow> 'a list" where
  "insertSorted cmp x [] = [x]"
| "insertSorted cmp x (y # ys) =
     (if cmp x y \<le> 0 then x # y # ys else y # insertSorted cmp x ys)"

definition sortBy :: "('a \<Rightarrow> 'a \<Rightarrow> int) \<Rightarrow> 'a list \<Rightarrow> 'a list" where
  "sortBy cmp xs = foldr (insertSorted cmp) xs []"

text \<open>The message of the \<^verbatim>\<open>TypeError\<close> (lines 191 to 195).\<close>

definition invalidPathsMessage :: "string list \<Rightarrow> string" where
  "invalidPathsMessage invalidPaths =
     (let singular = (length invalidPaths = 1) in
      ''The given '' @ (if singular then ''path'' else ''paths'') @ '': '' @
      join '', '' invalidPaths @ '' '' @ (if singular then ''is'' else ''are'') @ '' '' @
      ''invalid. Paths should be a matcher object or function that returns one. '' @
      ''See https://frontarm.com/navi/reference/declarations/'')"

text \<open>
  \<^verbatim>\<open>map\<close> (lines 169 to 258), with \<^verbatim>\<open>createMapping\<close> as a parameter. A
  \<^verbatim>\<open>throw\<close> is the left summand. The block under \<^verbatim>\<open>NODE_ENV\<close> (lines 205 to
  251) writes to the console and changes neither the mappings nor the result; the console
  is not part of the model. Every pattern that reaches \<^verbatim>\<open>createMapping\<close> has passed
  the \<^verbatim>\<open>typeof\<close> check.
\<close>

definition map' ::
  "(string \<Rightarrow> maybe_resolvable \<Rightarrow> mapping) \<Rightarrow> map_input \<Rightarrow> js_error + map_class" where
  "map' createMapping options =
     (case options of
        NoInput \<Rightarrow> Inl (Error ''match() must be supplied with a paths object.'')
      | _ \<Rightarrow>
        (let ps = (case options of
                     BareFunction f \<Rightarrow> [(''/'', Function f)]
                   | PathsObject obj \<Rightarrow> obj
                   | NoInput \<Rightarrow> []);
             pats = map fst ps;
             invalidPaths = filter (\<lambda>p. \<not> typeofFunction ps p) pats
         in if length invalidPaths > 0
            then Inl (TypeError (invalidPathsMessage invalidPaths))
            else
              (let mappings =
                     sortBy (\<lambda>x y. compareStrings (key x) (key y))
                       (List.map_filter
                          (\<lambda>p. case map_of ps p of
                                  Some (Function f) \<Rightarrow> Some (createMapping p f)
                                | _ \<Rightarrow> None) pats)
               in Inr \<lparr>paths = ps, orderedMappings = mappings, patterns = pats\<rparr>)))"

section \<open>A small router, for the concrete instances\<close>

datatype example_segment =
  MapSegment string bool
| NotFoundSegment string
| NotReadySegment string "string option" bool
| PageSegment nat

text \<open>A path test that succeeds when the pattern is a prefix of the path, and strips it.\<close>

definition example_test ::
  "(unit, unit) env \<Rightarrow> mapping \<Rightarrow> bool \<Rightarrow> (unit, unit) env option" where
  "example_test e m slash =
     (if take (length (pattern m)) (path (request e)) = pattern m
      then Some (e\<lparr>request := \<lparr>path = drop (length (pattern m)) (path (request e))\<rparr>\<rparr>)
      else None)"

text \<open>
  Externals whose resolver answers with the given value and error under the id 7, and
  whose child instances count their own passes.
\<close>

definition example_externals ::
  "matcher option \<Rightarrow> string option \<Rightarrow> int list \<Rightarrow>
   (unit, unit, string, example_segment, nat) externals" where
  "example_externals v e childIds =
     \<lparr>resolve = (\<lambda>rs en r. \<lparr>id' = 7, value' = v, error = e\<rparr>),
      newMatcher = (\<lambda>m options. 100 * m),
      getResult = (\<lambda>s. (\<lparr>resolutionIds = childIds, segments = [PageSegment s]\<rparr>, Suc s)),
      createSegment = (\<lambda>t rq cls slash. MapSegment (path rq) slash),
      createNotFoundSegment = (\<lambda>rq. NotFoundSegment (path rq)),
      createNotReadySegment = (\<lambda>rq er slash. NotReadySegment (path rq) er slash)\<rparr>"

definition example_createMapping :: "string \<Rightarrow> maybe_resolvable \<Rightarrow> mapping" where
  "example_createMapping p f = \<lparr>pattern = p, key = p, maybeResolvableMatcher = f\<rparr>"

definition example_options :: "string \<Rightarrow> (unit, unit) matcherOptions" where
  "example_options p =
     \<lparr>env = \<lparr>request = \<lparr>path = p\<rparr>, context' = ()\<rparr>, resolver = 0, appendFinalSlash = False\<rparr>"

definition example_class :: "(string \<times> maybe_resolvable) list \<Rightarrow> map_class" where
  "example_class entries =
     \<lparr>paths = map (\<lambda>(p, f). (p, Function f)) entries,
      orderedMappings = map (\<lambda>(p, f). example_createMapping p f) entries,
      patterns = map fst entries\<rparr>"

definition example_heap :: "nat heap" where
  "example_heap = \<lparr>objects = (\<lambda>a. 0), allocated = 0\<rparr>"

definition example_table :: map_class where
  "example_table =
     example_class [(''/'', IsMatcher 4), (''/a'', Resolvable 1), (''/a/b'', IsMatcher 2)]"

definition example_node :: "(unit, unit) node" where
  "example_node =
     fst (MapMatcherImplementation example_test example_table (example_options ''/a/x''))"

section \<open>What a statement about a pass refers to\<close>

text \<open>
  The state of \<^verbatim>\<open>last\<close> that the passes maintain: an instance is recorded only
  together with the matcher it was built from, and it is an allocated object.
\<close>

definition memo_ok :: "('q, 'c) node \<Rightarrow> 'cs heap \<Rightarrow> bool" where
  "memo_ok this h =
     (case last' this of
        None \<Rightarrow> True
      | Some l \<Rightarrow>
          (case matcherInstance l of
             None \<Rightarrow> matcher l = None
           | Some a \<Rightarrow> a < allocated h \<and> matcher l \<noteq> None))"

text \<open>
  The id a pass pushes itself (line 111), and the ids of the child result it appends
  (line 163).
\<close>

definition ownIds :: "('q, 'c, 'e, 's, 'cs) externals \<Rightarrow> ('q, 'c) node \<Rightarrow> int list" where
  "ownIds ext this =
     (case child this of
        None \<Rightarrow> []
      | Some c \<Rightarrow>
          (case maybeResolvable c of
             IsMatcher m \<Rightarrow> []
           | Resolvable r \<Rightarrow> [id' (resolve ext (resolver this) (env (matcherOptions c)) r)]))"

definition childIds ::
  "('q, 'c, 'e, 's, 'cs) externals \<Rightarrow> ('q, 'c) node \<Rightarrow> 'cs heap \<Rightarrow> int list" where
  "childIds ext this h =
     (case selectInstance ext this h of
        (ids, childMatcherResolution, childMatcherInstance, this', h') \<Rightarrow>
          (case fst (childResult ext childMatcherInstance h') of
             None \<Rightarrow> []
           | Some r \<Rightarrow> resolutionIds r))"

section \<open>What a pass leaves alone, and what it maintains\<close>

lemma execute_fields:
  "child (fst (snd (execute ext this h))) = child this \<and>
   env (fst (snd (execute ext this h))) = env this \<and>
   resolver (fst (snd (execute ext this h))) = resolver this \<and>
   appendFinalSlash (fst (snd (execute ext this h))) = appendFinalSlash this \<and>
   constructor' (fst (snd (execute ext this h))) = constructor' this"
  by (simp add: execute_def selectInstance_def Let_def split: prod.splits option.splits)

lemma passes_fields:
  "child (fst (passes exts s)) = child (fst s) \<and>
   env (fst (passes exts s)) = env (fst s) \<and>
   resolver (fst (passes exts s)) = resolver (fst s) \<and>
   appendFinalSlash (fst (passes exts s)) = appendFinalSlash (fst s) \<and>
   constructor' (fst (passes exts s)) = constructor' (fst s)"
proof (induction exts arbitrary: s)
  case Nil
  show ?case by simp
next
  case (Cons ext exts)
  obtain r this' h' where e: "execute ext (fst s) (snd s) = (r, this', h')"
    by (cases "execute ext (fst s) (snd s)") auto
  from execute_fields [of ext "fst s" "snd s"] e Cons [of "(this', h')"]
  show ?case by simp
qed

lemma memo_ok_execute:
  "memo_ok this h \<Longrightarrow> memo_ok (fst (snd (execute ext this h))) (snd (snd (execute ext this h)))"
  by (auto simp add: memo_ok_def execute_def selectInstance_def childInstance_def
      construct_def childResult_def resolveChild_def Let_def
      split: prod.splits option.splits if_splits maybe_resolvable.splits)

lemma memo_ok_new: "memo_ok (fst (MapMatcherImplementation t cls options)) h"
  by (simp add: memo_ok_def MapMatcherImplementation_def Let_def
      split: prod.splits option.splits)

lemma memo_ok_passes:
  "memo_ok (fst s) (snd s) \<Longrightarrow> memo_ok (fst (passes exts s)) (snd (passes exts s))"
proof (induction exts arbitrary: s)
  case Nil
  then show ?case by simp
next
  case (Cons ext exts)
  obtain r this' h' where e: "execute ext (fst s) (snd s) = (r, this', h')"
    by (cases "execute ext (fst s) (snd s)") auto
  from memo_ok_execute [OF Cons.prems, of ext] e have "memo_ok this' h'" by simp
  with Cons.IH [of "(this', h')"] e show ?case by simp
qed

lemma reachable_memo_ok:
  assumes "(this, h) = passes exts (fst (MapMatcherImplementation t cls options), h0)"
  shows "memo_ok this h"
proof -
  have "memo_ok (fst (passes exts (fst (MapMatcherImplementation t cls options), h0)))
          (snd (passes exts (fst (MapMatcherImplementation t cls options), h0)))"
    by (rule memo_ok_passes) (simp add: memo_ok_new)
  then show ?thesis by (simp add: assms [symmetric])
qed

text \<open>A resolution is there to read \<^verbatim>\<open>this.child!\<close> from only when a child is.\<close>

lemma resolution_needs_child:
  "fst (snd (selectInstance ext this h)) = Some res \<Longrightarrow> child this \<noteq> None"
  by (cases "child this") (simp_all add: selectInstance_def)

section \<open>The example router, evaluated\<close>

lemmas example_defs = example_table_def example_class_def example_createMapping_def
  example_options_def example_test_def example_externals_def example_heap_def

lemmas execute_defs = execute_def selectInstance_def resolveChild_def childInstance_def
  construct_def childResult_def nextSegments_def

lemma example_node_eq:
  "example_node =
     \<lparr>env = \<lparr>request = \<lparr>path = ''/a/x''\<rparr>, context' = ()\<rparr>, resolver = 0,
      appendFinalSlash = False, constructor' = example_table,
      child = Some
        \<lparr>mapping = \<lparr>pattern = ''/a'', key = ''/a'', maybeResolvableMatcher = Resolvable 1\<rparr>,
         matcherOptions = \<lparr>env = \<lparr>request = \<lparr>path = ''/x''\<rparr>, context' = ()\<rparr>,
                           resolver = 0, appendFinalSlash = False\<rparr>,
         maybeResolvable = Resolvable 1\<rparr>,
      last' = None\<rparr>"
  by (simp add: example_node_def MapMatcherImplementation_def example_defs Let_def)

lemma example_first_pass:
  "execute (example_externals (Some m) e ids) example_node example_heap =
     (\<lparr>resolutionIds = 7 # ids,
       segments = [MapSegment ''/a/x'' False, PageSegment (100 * m)]\<rparr>,
      example_node\<lparr>last' := Some \<lparr>matcherInstance = Some 0, matcher = Some m\<rparr>\<rparr>,
      \<lparr>objects = (\<lambda>a. 0)(0 := Suc (100 * m)), allocated = 1\<rparr>)"
  by (simp add: example_node_eq execute_defs example_externals_def example_heap_def)

section \<open>Selection at construction\<close>

text \<open>
  The loop, started with all entries left, visits the table from its end: it selects the
  first entry of the reversed table whose test succeeds, and it has called the test on
  the entries before that one and on that one.
\<close>

lemma selectChild_scan:
  "n \<le> length ms \<Longrightarrow>
   selectChild t e s ms n =
     (Option.bind (find (\<lambda>m. t e m s \<noteq> None) (rev (take n ms)))
        (\<lambda>m. map_option (Pair m) (t e m s)),
      takeWhile (\<lambda>m. t e m s = None) (rev (take n ms)) @
      take 1 (dropWhile (\<lambda>m. t e m s = None) (rev (take n ms))))"
proof (induction n)
  case 0
  show ?case by simp
next
  case (Suc i)
  then have i: "i < length ms" by simp
  then have tk: "rev (take (Suc i) ms) = ms ! i # rev (take i ms)"
    by (simp add: take_Suc_conv_app_nth)
  show ?case
  proof (cases "t e (ms ! i) s")
    case None
    with Suc i show ?thesis by (simp add: tk Let_def)
  next
    case (Some ce)
    then show ?thesis by (simp add: tk Let_def)
  qed
qed

text \<open>
  Claim C1. For a table of two or more entries, the constructor calls the path test on
  the entries from the end of the table towards its start, up to and including the first
  one whose test succeeds, and on no other entry; the child it records is that entry with
  the environment its test returned (none when every test fails); and no later pass
  changes the recorded child.
\<close>

theorem C1_selection:
  assumes "2 \<le> length (orderedMappings cls)"
  shows "snd (MapMatcherImplementation t cls options) =
           takeWhile (\<lambda>m. t (env options) m (appendFinalSlash options) = None)
             (rev (orderedMappings cls)) @
           take 1 (dropWhile (\<lambda>m. t (env options) m (appendFinalSlash options) = None)
             (rev (orderedMappings cls))) \<and>
         child (fst (MapMatcherImplementation t cls options)) =
           Option.bind
             (find (\<lambda>m. t (env options) m (appendFinalSlash options) \<noteq> None)
                (rev (orderedMappings cls)))
             (\<lambda>m. map_option
                (\<lambda>childEnv. \<lparr>mapping = m,
                   matcherOptions = \<lparr>env = childEnv, resolver = resolver options,
                                     appendFinalSlash = appendFinalSlash options\<rparr>,
                   maybeResolvable = maybeResolvableMatcher m\<rparr>)
                (t (env options) m (appendFinalSlash options))) \<and>
         child (fst (passes exts (fst (MapMatcherImplementation t cls options), h))) =
           child (fst (MapMatcherImplementation t cls options))"
proof -
  let ?ms = "orderedMappings cls"
  let ?P = "\<lambda>m. t (env options) m (appendFinalSlash options) \<noteq> None"
  from assms have ne: "length ?ms \<noteq> 1" by simp
  have sc: "selectChild t (env options) (appendFinalSlash options) ?ms (length ?ms) =
     (Option.bind (find ?P (rev ?ms))
        (\<lambda>m. map_option (Pair m) (t (env options) m (appendFinalSlash options))),
      takeWhile (\<lambda>m. t (env options) m (appendFinalSlash options) = None) (rev ?ms) @
      take 1 (dropWhile (\<lambda>m. t (env options) m (appendFinalSlash options) = None) (rev ?ms)))"
    using selectChild_scan [of "length ?ms" ?ms t "env options" "appendFinalSlash options"]
    by simp
  have a: "snd (MapMatcherImplementation t cls options) =
      snd (selectChild t (env options) (appendFinalSlash options) ?ms (length ?ms))"
    using ne by (simp add: MapMatcherImplementation_def Let_def split: prod.splits option.splits)
  have b: "child (fst (MapMatcherImplementation t cls options)) =
      map_option (\<lambda>(m, childEnv). \<lparr>mapping = m,
                   matcherOptions = \<lparr>env = childEnv, resolver = resolver options,
                                     appendFinalSlash = appendFinalSlash options\<rparr>,
                   maybeResolvable = maybeResolvableMatcher m\<rparr>)
        (fst (selectChild t (env options) (appendFinalSlash options) ?ms (length ?ms)))"
    using ne by (simp add: MapMatcherImplementation_def Let_def split: prod.splits option.splits)
  have c: "child (fst (MapMatcherImplementation t cls options)) =
           Option.bind (find ?P (rev ?ms))
             (\<lambda>m. map_option
                (\<lambda>childEnv. \<lparr>mapping = m,
                   matcherOptions = \<lparr>env = childEnv, resolver = resolver options,
                                     appendFinalSlash = appendFinalSlash options\<rparr>,
                   maybeResolvable = maybeResolvableMatcher m\<rparr>)
                (t (env options) m (appendFinalSlash options)))"
    unfolding b sc by (cases "find ?P (rev ?ms)") (auto simp: option.map_comp comp_def)
  show ?thesis
    using a sc c passes_fields [of exts "(fst (MapMatcherImplementation t cls options), h)"]
    by simp
qed

text \<open>
  On the example table and the path \<^verbatim>\<open>/a/x\<close>: the test runs on \<^verbatim>\<open>/a/b\<close>, then on
  \<^verbatim>\<open>/a\<close>, which is selected with the remainder \<^verbatim>\<open>/x\<close>; \<^verbatim>\<open>/\<close> is never tested.
\<close>

theorem C1_selection_witness:
  "2 \<le> length (orderedMappings example_table) \<and>
   snd (MapMatcherImplementation example_test example_table (example_options ''/a/x'')) =
     [\<lparr>pattern = ''/a/b'', key = ''/a/b'', maybeResolvableMatcher = IsMatcher 2\<rparr>,
      \<lparr>pattern = ''/a'', key = ''/a'', maybeResolvableMatcher = Resolvable 1\<rparr>] \<and>
   child (fst (passes [example_externals (Some 3) None []]
      (fst (MapMatcherImplementation example_test example_table (example_options ''/a/x'')),
       example_heap))) =
     Some \<lparr>mapping = \<lparr>pattern = ''/a'', key = ''/a'', maybeResolvableMatcher = Resolvable 1\<rparr>,
           matcherOptions = \<lparr>env = \<lparr>request = \<lparr>path = ''/x''\<rparr>, context' = ()\<rparr>,
                             resolver = 0, appendFinalSlash = False\<rparr>,
           maybeResolvable = Resolvable 1\<rparr>"
  using C1_selection [of example_table example_test "example_options ''/a/x''"
      "[example_externals (Some 3) None []]" example_heap]
  by (simp add: example_table_def example_class_def example_createMapping_def
      example_options_def example_test_def)

text \<open>
  Claim C6. When the table is a single entry whose pattern is \<^verbatim>\<open>/\<close>, the
  constructor records that entry as the child, with the node's own environment, whatever
  the path test would answer, and calls the path test on no entry.
\<close>

theorem C6_root_entry:
  assumes "orderedMappings cls = [m]" and "pattern m = ''/''"
  shows "MapMatcherImplementation t cls options =
           (\<lparr>env = env options, resolver = resolver options,
             appendFinalSlash = appendFinalSlash options, constructor' = cls,
             child = Some \<lparr>mapping = m,
                           matcherOptions = \<lparr>env = env options, resolver = resolver options,
                                             appendFinalSlash = appendFinalSlash options\<rparr>,
                           maybeResolvable = maybeResolvableMatcher m\<rparr>,
             last' = None\<rparr>, [])"
  using assms by (simp add: MapMatcherImplementation_def)

text \<open>With a path test that never succeeds, the root entry is selected all the same.\<close>

theorem C6_root_entry_witness:
  "orderedMappings (example_class [(''/'', Resolvable 1)]) =
     [\<lparr>pattern = ''/'', key = ''/'', maybeResolvableMatcher = Resolvable 1\<rparr>] \<and>
   MapMatcherImplementation (\<lambda>e m slash. None) (example_class [(''/'', Resolvable 1)])
       (example_options ''/zzz'') =
     (\<lparr>env = \<lparr>request = \<lparr>path = ''/zzz''\<rparr>, context' = ()\<rparr>, resolver = 0,
       appendFinalSlash = False, constructor' = example_class [(''/'', Resolvable 1)],
       child = Some
         \<lparr>mapping = \<lparr>pattern = ''/'', key = ''/'', maybeResolvableMatcher = Resolvable 1\<rparr>,
          matcherOptions = \<lparr>env = \<lparr>request = \<lparr>path = ''/zzz''\<rparr>, context' = ()\<rparr>,
                            resolver = 0, appendFinalSlash = False\<rparr>,
          maybeResolvable = Resolvable 1\<rparr>,
       last' = None\<rparr>, [])"
  using C6_root_entry [of "example_class [(''/'', Resolvable 1)]"
      "\<lparr>pattern = ''/'', key = ''/'', maybeResolvableMatcher = Resolvable 1\<rparr>"
      "\<lambda>e m slash. None" "example_options ''/zzz''"]
  by (simp add: example_class_def example_createMapping_def example_options_def)

section \<open>The segments of a pass\<close>

text \<open>
  Claim C7. The segments a pass returns begin with the segment \<^verbatim>\<open>createSegment\<close>
  builds for the type \<^verbatim>\<open>'map'\<close> from the request of the environment the node was
  constructed with (not the child's narrowed one), the node's class and the trailing-slash
  flag; the rest is the continuation of lines 134 to 151.
\<close>

theorem C7_map_segment_first:
  assumes "(this, h) = passes exts (fst (MapMatcherImplementation t cls options), h0)"
  shows "segments (fst (execute ext this h)) =
           createSegment ext ''map'' (request (env options)) cls (appendFinalSlash options) #
           (case selectInstance ext this h of
              (ids, childMatcherResolution, childMatcherInstance, this', h') \<Rightarrow>
                nextSegments ext this (fst (childResult ext childMatcherInstance h'))
                  childMatcherResolution)"
proof -
  have "env this = env options \<and> appendFinalSlash this = appendFinalSlash options \<and>
        constructor' this = cls"
    using passes_fields [of exts "(fst (MapMatcherImplementation t cls options), h0)"]
      assms [symmetric]
    by (simp add: MapMatcherImplementation_def Let_def split: prod.splits option.splits)
  then show ?thesis
    by (simp add: execute_def Let_def split: prod.splits)
qed

text \<open>
  The example node was built for \<^verbatim>\<open>/a/x\<close> and narrowed its child to \<^verbatim>\<open>/x\<close>: its
  map segment is the one of \<^verbatim>\<open>/a/x\<close>.
\<close>

theorem C7_map_segment_first_witness:
  "segments (fst (execute (example_externals (Some 3) None [])
      (fst (MapMatcherImplementation example_test example_table (example_options ''/a/x'')))
      example_heap)) =
     [MapSegment ''/a/x'' False, PageSegment 300]"
  using C7_map_segment_first [of
      "fst (MapMatcherImplementation example_test example_table (example_options ''/a/x''))"
      example_heap "[]" example_test example_table "example_options ''/a/x''" example_heap
      "example_externals (Some 3) None []"]
  by (simp add: example_first_pass [unfolded example_node_def])

text \<open>
  Claim C5. In a pass of a node that selected no entry, the segments are the map segment
  followed by the not-found segment of the node's own request when the remaining path is
  not empty, and the map segment alone when it is empty.
\<close>

theorem C5_no_entry:
  assumes "child this = None"
  shows "segments (fst (execute ext this h)) =
           (if path (request (env this)) \<noteq> []
            then [createSegment ext ''map'' (request (env this)) (constructor' this)
                    (appendFinalSlash this),
                  createNotFoundSegment ext (request (env this))]
            else [createSegment ext ''map'' (request (env this)) (constructor' this)
                    (appendFinalSlash this)])"
  using assms by (simp add: execute_def selectInstance_def childResult_def nextSegments_def)

text \<open>No entry of the example table matches \<^verbatim>\<open>q\<close>, and none matches the empty path.\<close>

theorem C5_no_entry_witness:
  "child (fst (MapMatcherImplementation example_test example_table (example_options ''q''))) =
     None \<and>
   segments (fst (execute (example_externals None None [])
     (fst (MapMatcherImplementation example_test example_table (example_options ''q'')))
     example_heap)) = [MapSegment ''q'' False, NotFoundSegment ''q''] \<and>
   child (fst (MapMatcherImplementation example_test example_table (example_options ''''))) =
     None \<and>
   segments (fst (execute (example_externals None None [])
     (fst (MapMatcherImplementation example_test example_table (example_options '''')))
     example_heap)) = [MapSegment '''' False]"
proof -
  have q: "child (fst (MapMatcherImplementation example_test example_table
             (example_options ''q''))) = None"
    by (simp add: MapMatcherImplementation_def example_defs Let_def)
  have e: "child (fst (MapMatcherImplementation example_test example_table
             (example_options ''''))) = None"
    by (simp add: MapMatcherImplementation_def example_defs Let_def)
  show ?thesis
    using q e
      C5_no_entry [OF q, of "example_externals None None []" example_heap]
      C5_no_entry [OF e, of "example_externals None None []" example_heap]
    by (simp add: MapMatcherImplementation_def example_defs Let_def)
qed

text \<open>
  A pass whose resolver has no value for the selected reference: nothing is built, the
  continuation is the not-ready segment with whatever error the resolution carries, and
  \<^verbatim>\<open>last\<close> is emptied.
\<close>

lemma pending_pass:
  assumes ok: "memo_ok this h"
    and c: "child this = Some c"
    and r: "maybeResolvable c = Resolvable r"
    and v: "value' (resolve ext (resolver this) (env (matcherOptions c)) r) = None"
  shows "execute ext this h =
           (\<lparr>resolutionIds = [id' (resolve ext (resolver this) (env (matcherOptions c)) r)],
             segments =
               [createSegment ext ''map'' (request (env this)) (constructor' this)
                  (appendFinalSlash this),
                createNotReadySegment ext (request (env (matcherOptions c)))
                  (error (resolve ext (resolver this) (env (matcherOptions c)) r))
                  (appendFinalSlash this)]\<rparr>,
            this\<lparr>last' := Some \<lparr>matcherInstance = None, matcher = None\<rparr>\<rparr>, h)"
proof -
  have i: "childInstance ext this c None h = (None, h)"
    using ok by (auto simp add: childInstance_def memo_ok_def split: option.splits)
  show ?thesis
    by (simp add: execute_def selectInstance_def resolveChild_def c r v i Let_def
        childResult_def nextSegments_def)
qed

text \<open>The pass after such a one, when the resolver now has a matcher.\<close>

lemma resolved_after_pending:
  assumes c: "child this = Some c"
    and r: "maybeResolvable c = Resolvable r"
    and l: "last' this = Some \<lparr>matcherInstance = None, matcher = None\<rparr>"
    and v: "value' (resolve ext (resolver this) (env (matcherOptions c)) r) = Some m"
  shows "segments (fst (execute ext this h)) =
           createSegment ext ''map'' (request (env this)) (constructor' this)
              (appendFinalSlash this) #
           segments (fst (getResult ext (newMatcher ext m (matcherOptions c))))"
  by (simp add: execute_def selectInstance_def resolveChild_def c r v l Let_def
      childInstance_def construct_def childResult_def nextSegments_def split: prod.splits)

text \<open>
  Claim C4. In a pass, at any point of a node's life, where the resolver returns neither
  a value nor an error for the selected reference, the segments are the map segment
  followed by the not-ready segment built from the request of the child's environment, no
  error, and the trailing-slash flag.
\<close>

theorem C4_pending:
  assumes "(this, h) = passes exts (fst (MapMatcherImplementation t cls options), h0)"
    and "child this = Some c"
    and "maybeResolvable c = Resolvable r"
    and "value' (resolve ext (resolver this) (env (matcherOptions c)) r) = None"
    and "error (resolve ext (resolver this) (env (matcherOptions c)) r) = None"
  shows "segments (fst (execute ext this h)) =
           [createSegment ext ''map'' (request (env this)) (constructor' this)
              (appendFinalSlash this),
            createNotReadySegment ext (request (env (matcherOptions c))) None
              (appendFinalSlash this)]"
  using pending_pass [OF reachable_memo_ok [OF assms(1)] assms(2,3,4)] assms(5)
  by simp

text \<open>
  The example node after a pass that had resolved a matcher: a pending pass gives the
  not-ready segment of the child's request \<^verbatim>\<open>/x\<close>.
\<close>

lemma example_after_pass:
  "passes [example_externals (Some 3) None []]
     (fst (MapMatcherImplementation example_test example_table (example_options ''/a/x'')),
      example_heap) =
   (example_node\<lparr>last' := Some \<lparr>matcherInstance = Some 0, matcher = Some 3\<rparr>\<rparr>,
    \<lparr>objects = (\<lambda>a. 0)(0 := 301), allocated = 1\<rparr>)"
  using example_first_pass [of 3 None "[]"] by (simp add: example_node_def)

theorem C4_pending_witness:
  "value' (resolve (example_externals None None []) 0
     \<lparr>request = \<lparr>path = ''/x''\<rparr>, context' = ()\<rparr> 1) = None \<and>
   error (resolve (example_externals None None []) 0
     \<lparr>request = \<lparr>path = ''/x''\<rparr>, context' = ()\<rparr> 1) = None \<and>
   segments (fst (execute (example_externals None None [])
     (fst (passes [example_externals (Some 3) None []]
        (fst (MapMatcherImplementation example_test example_table (example_options ''/a/x'')),
         example_heap)))
     (snd (passes [example_externals (Some 3) None []]
        (fst (MapMatcherImplementation example_test example_table (example_options ''/a/x'')),
         example_heap))))) =
     [MapSegment ''/a/x'' False, NotReadySegment ''/x'' None False]"
  using C4_pending [of
      "fst (passes [example_externals (Some 3) None []]
        (fst (MapMatcherImplementation example_test example_table (example_options ''/a/x'')),
         example_heap))"
      "snd (passes [example_externals (Some 3) None []]
        (fst (MapMatcherImplementation example_test example_table (example_options ''/a/x'')),
         example_heap))"
      "[example_externals (Some 3) None []]" example_test example_table
      "example_options ''/a/x''" example_heap
      "\<lparr>mapping = \<lparr>pattern = ''/a'', key = ''/a'', maybeResolvableMatcher = Resolvable 1\<rparr>,
        matcherOptions = \<lparr>env = \<lparr>request = \<lparr>path = ''/x''\<rparr>, context' = ()\<rparr>,
                          resolver = 0, appendFinalSlash = False\<rparr>,
        maybeResolvable = Resolvable 1\<rparr>"
      1 "example_externals None None []"]
  unfolding example_after_pass
  by (simp add: example_node_eq example_externals_def)

text \<open>
  Claim C8. In a pass where the resolver returns an error and no value for the selected
  reference, \<^verbatim>\<open>execute\<close> returns: its segments are the map segment followed by the
  not-ready segment that carries the error. If the resolver has a matcher at the next
  pass, the segments of that pass are the map segment followed by the segments of a newly
  built child: the error, and the externals of the earlier pass, do not occur in them.
\<close>

theorem C8_error_carried:
  assumes "(this, h) = passes exts (fst (MapMatcherImplementation t cls options), h0)"
    and "child this = Some c"
    and "maybeResolvable c = Resolvable r"
    and "value' (resolve ext (resolver this) (env (matcherOptions c)) r) = None"
    and "error (resolve ext (resolver this) (env (matcherOptions c)) r) = Some e"
    and "value' (resolve ext2 (resolver this) (env (matcherOptions c)) r) = Some m"
  shows "segments (fst (execute ext this h)) =
           [createSegment ext ''map'' (request (env this)) (constructor' this)
              (appendFinalSlash this),
            createNotReadySegment ext (request (env (matcherOptions c))) (Some e)
              (appendFinalSlash this)] \<and>
         segments (fst (execute ext2 (fst (snd (execute ext this h)))
                          (snd (snd (execute ext this h))))) =
           createSegment ext2 ''map'' (request (env this)) (constructor' this)
             (appendFinalSlash this) #
           segments (fst (getResult ext2 (newMatcher ext2 m (matcherOptions c))))"
proof -
  note p = pending_pass [OF reachable_memo_ok [OF assms(1)] assms(2,3,4)]
  have a: "segments (fst (execute ext this h)) =
           [createSegment ext ''map'' (request (env this)) (constructor' this)
              (appendFinalSlash this),
            createNotReadySegment ext (request (env (matcherOptions c))) (Some e)
              (appendFinalSlash this)]"
    using p assms(5) by simp
  let ?this1 = "this\<lparr>last' := Some \<lparr>matcherInstance = None, matcher = None\<rparr>\<rparr>"
  have b: "segments (fst (execute ext2 ?this1 h)) =
           createSegment ext2 ''map'' (request (env ?this1)) (constructor' ?this1)
             (appendFinalSlash ?this1) #
           segments (fst (getResult ext2 (newMatcher ext2 m (matcherOptions c))))"
    by (rule resolved_after_pending [where r = r]) (simp_all add: assms(2,3,6))
  show ?thesis using a b by (simp add: p)
qed

text \<open>
  On the new example node: a first pass whose resolution failed with \<^verbatim>\<open>boom\<close>, then
  a pass that resolves the matcher 3.
\<close>

theorem C8_error_carried_witness:
  "value' (resolve (example_externals None (Some ''boom'') []) 0
     \<lparr>request = \<lparr>path = ''/x''\<rparr>, context' = ()\<rparr> 1) = None \<and>
   error (resolve (example_externals None (Some ''boom'') []) 0
     \<lparr>request = \<lparr>path = ''/x''\<rparr>, context' = ()\<rparr> 1) = Some ''boom'' \<and>
   value' (resolve (example_externals (Some 3) None []) 0
     \<lparr>request = \<lparr>path = ''/x''\<rparr>, context' = ()\<rparr> 1) = Some 3 \<and>
   segments (fst (execute (example_externals None (Some ''boom'') [])
     (fst (MapMatcherImplementation example_test example_table (example_options ''/a/x'')))
     example_heap)) =
     [MapSegment ''/a/x'' False, NotReadySegment ''/x'' (Some ''boom'') False] \<and>
   segments (fst (execute (example_externals (Some 3) None [])
     (fst (snd (execute (example_externals None (Some ''boom'') [])
        (fst (MapMatcherImplementation example_test example_table (example_options ''/a/x'')))
        example_heap)))
     (snd (snd (execute (example_externals None (Some ''boom'') [])
        (fst (MapMatcherImplementation example_test example_table (example_options ''/a/x'')))
        example_heap))))) =
     [MapSegment ''/a/x'' False, PageSegment 300]"
  using C8_error_carried [of
      "fst (MapMatcherImplementation example_test example_table (example_options ''/a/x''))"
      example_heap "[]" example_test example_table "example_options ''/a/x''" example_heap
      "\<lparr>mapping = \<lparr>pattern = ''/a'', key = ''/a'', maybeResolvableMatcher = Resolvable 1\<rparr>,
        matcherOptions = \<lparr>env = \<lparr>request = \<lparr>path = ''/x''\<rparr>, context' = ()\<rparr>,
                          resolver = 0, appendFinalSlash = False\<rparr>,
        maybeResolvable = Resolvable 1\<rparr>"
      1 "example_externals None (Some ''boom'') []" "''boom''"
      "example_externals (Some 3) None []" 3]
  by (simp add: example_node_def [symmetric]) (simp add: example_node_eq example_externals_def)

section \<open>The child instance from one pass to the next\<close>

lemma select_new:
  assumes c: "child this = Some c"
    and m: "snd (snd (resolveChild ext this c)) = Some m"
    and l: "case last' this of None \<Rightarrow> True | Some l \<Rightarrow> matcher l \<noteq> Some m"
  shows "fst (snd (snd (selectInstance ext this h))) = Some (allocated h) \<and>
         snd (snd (snd (snd (selectInstance ext this h)))) =
           h\<lparr>objects := (objects h)(allocated h := newMatcher ext m (matcherOptions c)),
             allocated := Suc (allocated h)\<rparr>"
proof -
  obtain ids res where r: "resolveChild ext this c = (ids, res, Some m)"
    using m by (cases "resolveChild ext this c") auto
  show ?thesis
    using l by (simp add: selectInstance_def c r childInstance_def construct_def)
qed

lemma select_reuse:
  assumes c: "child this = Some c"
    and m: "snd (snd (resolveChild ext this c)) = Some m"
    and l: "last' this = Some l" and lm: "matcher l = Some m"
  shows "fst (snd (snd (selectInstance ext this h))) = matcherInstance l \<and>
         snd (snd (snd (snd (selectInstance ext this h)))) = h"
proof -
  obtain ids res where r: "resolveChild ext this c = (ids, res, Some m)"
    using m by (cases "resolveChild ext this c") auto
  show ?thesis
    by (simp add: selectInstance_def c r childInstance_def l lm)
qed

lemma execute_memo:
  assumes c: "child this = Some c"
  shows "last' (fst (snd (execute ext this h))) =
           Some \<lparr>matcherInstance = fst (snd (snd (selectInstance ext this h))),
                 matcher = snd (snd (resolveChild ext this c))\<rparr>"
  by (simp add: execute_def selectInstance_def c Let_def split: prod.splits)

text \<open>
  Claim C2. Take a node at any point of its life (newly constructed, or after any number
  of passes) and a pass on it that resolves the matcher \<open>m\<close>.
  \<^item> If \<^verbatim>\<open>last\<close>, as the pass before left it, records \<open>m\<close>, the pass takes the
    instance recorded there: it is an instance, the same reference, and the store is as
    it was when the instance is taken (nothing is built, the instance is not written).
  \<^item> If there is no \<^verbatim>\<open>last\<close> (the first pass) or it records another matcher or
    none, the pass builds an instance of \<open>m\<close> from the child's options at the next free
    reference, which is not the reference of the instance recorded before.
  \<^item> In both cases \<^verbatim>\<open>last\<close> records \<open>m\<close> and the instance of the pass when the
    pass returns.
\<close>

theorem C2_instance_reuse:
  assumes reach: "(this, h) = passes exts (fst (MapMatcherImplementation t cls options), h0)"
    and c: "child this = Some c"
    and m: "snd (snd (resolveChild ext this c)) = Some m"
  shows "(\<forall>l. last' this = Some l \<and> matcher l = Some m \<longrightarrow>
            (\<exists>a. matcherInstance l = Some a \<and> a < allocated h \<and>
                 fst (snd (snd (selectInstance ext this h))) = Some a \<and>
                 snd (snd (snd (snd (selectInstance ext this h)))) = h)) \<and>
         ((case last' this of None \<Rightarrow> True | Some l \<Rightarrow> matcher l \<noteq> Some m) \<longrightarrow>
            fst (snd (snd (selectInstance ext this h))) = Some (allocated h) \<and>
            (\<forall>l a. last' this = Some l \<and> matcherInstance l = Some a \<longrightarrow> a \<noteq> allocated h) \<and>
            snd (snd (snd (snd (selectInstance ext this h)))) =
              h\<lparr>objects := (objects h)(allocated h := newMatcher ext m (matcherOptions c)),
                allocated := Suc (allocated h)\<rparr>) \<and>
         last' (fst (snd (execute ext this h))) =
           Some \<lparr>matcherInstance = fst (snd (snd (selectInstance ext this h))),
                 matcher = Some m\<rparr>"
proof -
  have ok: "memo_ok this h" by (rule reachable_memo_ok [OF reach])
  have a: "\<forall>l. last' this = Some l \<and> matcher l = Some m \<longrightarrow>
            (\<exists>a. matcherInstance l = Some a \<and> a < allocated h \<and>
                 fst (snd (snd (selectInstance ext this h))) = Some a \<and>
                 snd (snd (snd (snd (selectInstance ext this h)))) = h)"
  proof (intro allI impI)
    fix l assume l: "last' this = Some l \<and> matcher l = Some m"
    with ok obtain a where a: "matcherInstance l = Some a" "a < allocated h"
      by (auto simp add: memo_ok_def split: option.splits)
    with select_reuse [OF c m, of l h] l
    show "\<exists>a. matcherInstance l = Some a \<and> a < allocated h \<and>
                 fst (snd (snd (selectInstance ext this h))) = Some a \<and>
                 snd (snd (snd (snd (selectInstance ext this h)))) = h"
      by simp
  qed
  have b: "\<forall>l a. last' this = Some l \<and> matcherInstance l = Some a \<longrightarrow> a \<noteq> allocated h"
    using ok by (auto simp add: memo_ok_def split: option.splits)
  show ?thesis
    using a b select_new [OF c m, of h] execute_memo [OF c, of ext h] m by auto
qed

text \<open>
  The example node after a pass that resolved the matcher 3 into the instance 0: a pass
  that resolves 3 again takes the instance 0 and leaves the store alone; a pass that
  resolves the matcher 5 builds the instance 1.
\<close>

theorem C2_instance_reuse_witness:
  "fst (snd (snd (selectInstance (example_externals (Some 3) None [])
     (fst (passes [example_externals (Some 3) None []]
        (fst (MapMatcherImplementation example_test example_table (example_options ''/a/x'')),
         example_heap)))
     (snd (passes [example_externals (Some 3) None []]
        (fst (MapMatcherImplementation example_test example_table (example_options ''/a/x'')),
         example_heap)))))) = Some 0 \<and>
   snd (snd (snd (snd (selectInstance (example_externals (Some 3) None [])
     (fst (passes [example_externals (Some 3) None []]
        (fst (MapMatcherImplementation example_test example_table (example_options ''/a/x'')),
         example_heap)))
     (snd (passes [example_externals (Some 3) None []]
        (fst (MapMatcherImplementation example_test example_table (example_options ''/a/x'')),
         example_heap))))))) =
     snd (passes [example_externals (Some 3) None []]
        (fst (MapMatcherImplementation example_test example_table (example_options ''/a/x'')),
         example_heap)) \<and>
   last' (fst (snd (execute (example_externals (Some 3) None [])
     (fst (passes [example_externals (Some 3) None []]
        (fst (MapMatcherImplementation example_test example_table (example_options ''/a/x'')),
         example_heap)))
     (snd (passes [example_externals (Some 3) None []]
        (fst (MapMatcherImplementation example_test example_table (example_options ''/a/x'')),
         example_heap)))))) = Some \<lparr>matcherInstance = Some 0, matcher = Some 3\<rparr> \<and>
   last' (fst (snd (execute (example_externals (Some 5) None [])
     (fst (passes [example_externals (Some 3) None []]
        (fst (MapMatcherImplementation example_test example_table (example_options ''/a/x'')),
         example_heap)))
     (snd (passes [example_externals (Some 3) None []]
        (fst (MapMatcherImplementation example_test example_table (example_options ''/a/x'')),
         example_heap)))))) = Some \<lparr>matcherInstance = Some 1, matcher = Some 5\<rparr>"
  using
    C2_instance_reuse [of
      "fst (passes [example_externals (Some 3) None []]
        (fst (MapMatcherImplementation example_test example_table (example_options ''/a/x'')),
         example_heap))"
      "snd (passes [example_externals (Some 3) None []]
        (fst (MapMatcherImplementation example_test example_table (example_options ''/a/x'')),
         example_heap))"
      "[example_externals (Some 3) None []]" example_test example_table
      "example_options ''/a/x''" example_heap
      "\<lparr>mapping = \<lparr>pattern = ''/a'', key = ''/a'', maybeResolvableMatcher = Resolvable 1\<rparr>,
        matcherOptions = \<lparr>env = \<lparr>request = \<lparr>path = ''/x''\<rparr>, context' = ()\<rparr>,
                          resolver = 0, appendFinalSlash = False\<rparr>,
        maybeResolvable = Resolvable 1\<rparr>"
      "example_externals (Some 3) None []" 3]
    C2_instance_reuse [of
      "fst (passes [example_externals (Some 3) None []]
        (fst (MapMatcherImplementation example_test example_table (example_options ''/a/x'')),
         example_heap))"
      "snd (passes [example_externals (Some 3) None []]
        (fst (MapMatcherImplementation example_test example_table (example_options ''/a/x'')),
         example_heap))"
      "[example_externals (Some 3) None []]" example_test example_table
      "example_options ''/a/x''" example_heap
      "\<lparr>mapping = \<lparr>pattern = ''/a'', key = ''/a'', maybeResolvableMatcher = Resolvable 1\<rparr>,
        matcherOptions = \<lparr>env = \<lparr>request = \<lparr>path = ''/x''\<rparr>, context' = ()\<rparr>,
                          resolver = 0, appendFinalSlash = False\<rparr>,
        maybeResolvable = Resolvable 1\<rparr>"
      "example_externals (Some 5) None []" 5]
  unfolding example_after_pass
  by (simp add: example_node_eq example_externals_def execute_defs)

section \<open>The resolution ids of a pass\<close>

text \<open>
  Claim C3, as amended. The ids a pass returns are the node's own id followed by the ids
  of the child result. The own id is there (once) whenever the selected entry holds a
  reference that goes through the resolver, whether the resolution is pending or has
  settled, and is absent when the entry holds a matcher or no entry is selected; the
  child's ids are there when a child instance gave a result. Nothing removes duplicates:
  the ids are distinct exactly when the child's are and the own id is not among them.
\<close>

theorem C3_resolution_ids:
  "resolutionIds (fst (execute ext this h)) = ownIds ext this @ childIds ext this h \<and>
   length (ownIds ext this) \<le> 1 \<and>
   (distinct (resolutionIds (fst (execute ext this h))) \<longleftrightarrow>
      distinct (childIds ext this h) \<and> set (ownIds ext this) \<inter> set (childIds ext this h) = {})"
proof -
  have a: "resolutionIds (fst (execute ext this h)) = ownIds ext this @ childIds ext this h"
    by (simp add: ownIds_def childIds_def execute_def selectInstance_def resolveChild_def
        Let_def split: prod.splits option.splits maybe_resolvable.splits)
  have b: "length (ownIds ext this) \<le> 1"
    by (simp add: ownIds_def split: option.splits maybe_resolvable.splits)
  then have "distinct (ownIds ext this)"
    by (cases "ownIds ext this") auto
  with a b show ?thesis by auto
qed

theorem C3_resolution_ids_witness:
  "ownIds (example_externals (Some 3) None [8, 9]) example_node = [7] \<and>
   childIds (example_externals (Some 3) None [8, 9]) example_node example_heap = [8, 9] \<and>
   resolutionIds (fst (execute (example_externals (Some 3) None [8, 9]) example_node
     example_heap)) = [7, 8, 9]"
  using C3_resolution_ids [of "example_externals (Some 3) None [8, 9]" example_node
      example_heap]
  by (simp add: ownIds_def childIds_def example_node_eq example_externals_def
      example_heap_def execute_defs)

text \<open>
  Claim C3 as the specification states it fails. On the new example node the resolver has
  settled on the matcher 3, so nothing is pending, and the pass still returns the node's
  id 7; and when the child reports the id 7 too, the pass returns it twice.
\<close>

theorem C3_counterexample:
  "value' (resolve (example_externals (Some 3) None []) 0
     \<lparr>request = \<lparr>path = ''/x''\<rparr>, context' = ()\<rparr> 1) = Some 3 \<and>
   resolutionIds (fst (execute (example_externals (Some 3) None []) example_node
     example_heap)) = [7] \<and>
   resolutionIds (fst (execute (example_externals (Some 3) None [7]) example_node
     example_heap)) = [7, 7]"
  by (simp add: example_first_pass) (simp add: example_externals_def)

section \<open>Errors of the builder\<close>

lemma join_names: "p \<in> set xs \<Longrightarrow> \<exists>pre post. join sep xs = pre @ p @ post"
proof (induction sep xs rule: join.induct)
  case (1 sep)
  then show ?case by simp
next
  case (2 sep x)
  then have "join sep [x] = [] @ p @ []" by simp
  then show ?case by blast
next
  case (3 sep x y ys)
  show ?case
  proof (cases "p = x")
    case True
    then have "join sep (x # y # ys) = [] @ p @ (sep @ join sep (y # ys))" by simp
    then show ?thesis by blast
  next
    case False
    with 3 obtain pre post where "join sep (y # ys) = pre @ p @ post" by auto
    then have "join sep (x # y # ys) = (x @ sep @ pre) @ p @ post" by simp
    then show ?thesis by blast
  qed
qed

lemma message_names:
  assumes "p \<in> set xs"
  shows "\<exists>pre post. invalidPathsMessage xs = pre @ p @ post"
proof -
  from join_names [OF assms] obtain pre post where j: "join '', '' xs = pre @ p @ post"
    by blast
  obtain a b where ab: "invalidPathsMessage xs = a @ join '', '' xs @ b"
    unfolding invalidPathsMessage_def Let_def
    by (metis append.assoc)
  have "invalidPathsMessage xs = (a @ pre) @ p @ (post @ b)"
    by (simp add: ab j)
  then show ?thesis by blast
qed

text \<open>
  Claim C9. \<^verbatim>\<open>map\<close> called with no input throws the error of line 171. Called with a
  paths object that holds a value that is not a function under a pattern \<open>p\<close>, it throws
  a \<^verbatim>\<open>TypeError\<close> with the message of lines 193 and 194 over the patterns whose value
  is not a function, and \<open>p\<close> occurs in that message. Both are results of \<^verbatim>\<open>map\<close>
  itself: no class is returned that a node could be constructed from and evaluated.
\<close>

theorem C9_construction_errors:
  assumes "map_of ps p = Some NotAFunction"
  shows "map' createMapping NoInput =
           Inl (Error ''match() must be supplied with a paths object.'') \<and>
         map' createMapping (PathsObject ps) =
           Inl (TypeError (invalidPathsMessage
                  (filter (\<lambda>p. \<not> typeofFunction ps p) (map fst ps)))) \<and>
         (\<exists>pre post. invalidPathsMessage (filter (\<lambda>p. \<not> typeofFunction ps p) (map fst ps)) =
            pre @ p @ post)"
proof -
  from assms have k: "p \<in> set (map fst ps)"
    by (metis map_of_SomeD fst_conv image_eqI set_map)
  from assms have "\<not> typeofFunction ps p" by (simp add: typeofFunction_def)
  with k have i: "p \<in> set (filter (\<lambda>p. \<not> typeofFunction ps p) (map fst ps))" by simp
  then have ne: "filter (\<lambda>p. \<not> typeofFunction ps p) (map fst ps) \<noteq> []"
    by (auto simp add: filter_empty_conv)
  have a: "map' createMapping NoInput =
           Inl (Error ''match() must be supplied with a paths object.'')"
    by (simp add: map'_def)
  have b: "map' createMapping (PathsObject ps) =
           Inl (TypeError (invalidPathsMessage
                  (filter (\<lambda>p. \<not> typeofFunction ps p) (map fst ps))))"
    using ne by (simp add: map'_def Let_def)
  show ?thesis using a b message_names [OF i] by blast
qed

theorem C9_construction_errors_witness:
  "map_of [(''/b'', Function (IsMatcher 2)), (''/a'', NotAFunction)] ''/a'' =
     Some NotAFunction \<and>
   map' example_createMapping NoInput =
     Inl (Error ''match() must be supplied with a paths object.'') \<and>
   map' example_createMapping
       (PathsObject [(''/b'', Function (IsMatcher 2)), (''/a'', NotAFunction)]) =
     Inl (TypeError (''The given path: /a is invalid. Paths should be a matcher object '' @
       ''or function that returns one. See https://frontarm.com/navi/reference/declarations/''))"
  using C9_construction_errors [of
      "[(''/b'', Function (IsMatcher 2)), (''/a'', NotAFunction)]" "''/a''"
      example_createMapping]
  by (simp add: typeofFunction_def invalidPathsMessage_def)

text \<open>
  Claim C10. \<^verbatim>\<open>map\<close> called with a paths object without patterns returns a class
  whose table is empty. A node of that class tests no entry and has no child, at
  construction and after any passes, and a pass of it with a non-empty remaining path
  returns the map segment followed by the not-found segment.
\<close>

theorem C10_empty_paths:
  assumes "path (request (env options)) \<noteq> []"
    and "(this, h) =
           passes exts (fst (MapMatcherImplementation t
             \<lparr>paths = [], orderedMappings = [], patterns = []\<rparr> options), h0)"
  shows "map' createMapping (PathsObject []) =
           Inr \<lparr>paths = [], orderedMappings = [], patterns = []\<rparr> \<and>
         snd (MapMatcherImplementation t
                \<lparr>paths = [], orderedMappings = [], patterns = []\<rparr> options) = [] \<and>
         child this = None \<and>
         segments (fst (execute ext this h)) =
           [createSegment ext ''map'' (request (env options))
              \<lparr>paths = [], orderedMappings = [], patterns = []\<rparr> (appendFinalSlash options),
            createNotFoundSegment ext (request (env options))]"
proof -
  let ?cls = "\<lparr>paths = [], orderedMappings = [], patterns = []\<rparr>"
  have n: "MapMatcherImplementation t ?cls options =
     (\<lparr>env = env options, resolver = resolver options,
       appendFinalSlash = appendFinalSlash options,
       constructor' = ?cls, child = None, last' = None\<rparr>, [])"
    by (simp add: MapMatcherImplementation_def)
  have f: "child this = None \<and> env this = env options \<and>
           appendFinalSlash this = appendFinalSlash options \<and> constructor' this = ?cls"
    using passes_fields [of exts "(fst (MapMatcherImplementation t ?cls options), h0)"]
      assms(2) [symmetric]
    by (simp add: n)
  have m: "map' createMapping (PathsObject []) = Inr ?cls"
    by (simp add: map'_def sortBy_def)
  have s: "segments (fst (execute ext this h)) =
           [createSegment ext ''map'' (request (env options)) ?cls (appendFinalSlash options),
            createNotFoundSegment ext (request (env options))]"
    using f assms(1)
    by (simp add: execute_def selectInstance_def childResult_def nextSegments_def)
  show ?thesis using n f m s by simp
qed

theorem C10_empty_paths_witness:
  "path (request (env (example_options ''/zzz''))) \<noteq> [] \<and>
   map' example_createMapping (PathsObject []) =
     Inr \<lparr>paths = [], orderedMappings = [], patterns = []\<rparr> \<and>
   segments (fst (execute (example_externals None None [])
     (fst (passes [example_externals None None []]
        (fst (MapMatcherImplementation example_test
           \<lparr>paths = [], orderedMappings = [], patterns = []\<rparr> (example_options ''/zzz'')),
         example_heap)))
     (snd (passes [example_externals None None []]
        (fst (MapMatcherImplementation example_test
           \<lparr>paths = [], orderedMappings = [], patterns = []\<rparr> (example_options ''/zzz'')),
         example_heap))))) =
     [MapSegment ''/zzz'' False, NotFoundSegment ''/zzz'']"
  using C10_empty_paths [of "example_options ''/zzz''"
      "fst (passes [example_externals None None []]
        (fst (MapMatcherImplementation example_test
           \<lparr>paths = [], orderedMappings = [], patterns = []\<rparr> (example_options ''/zzz'')),
         example_heap))"
      "snd (passes [example_externals None None []]
        (fst (MapMatcherImplementation example_test
           \<lparr>paths = [], orderedMappings = [], patterns = []\<rparr> (example_options ''/zzz'')),
         example_heap))"
      "[example_externals None None []]" example_test example_heap example_createMapping
      "example_externals None None []"]
  by (simp add: example_options_def example_externals_def)

end
